theory Spec2Isabelle
  imports Complex_Main
begin

section \<open>JavaScript values\<close>

text \<open>
  The values that \<^verbatim>\<open>JSON.parse\<close> can return, together with \<^verbatim>\<open>undefined\<close>, which
  a property read yields for a name the value does not have. A JSON number is a finite
  double; the program only tests numbers for truthiness and interpolates them into
  messages, so a number is taken as the rational it denotes (\<^verbatim>\<open>-0\<close> is \<open>0\<close>). JSON text has
  no literal for \<^verbatim>\<open>NaN\<close>. An object is the list of its own properties; the value of a property
  is its first binding in the list.
\<close>

datatype js_value =
    JUndefined
  | JNull
  | JBool bool
  | JNumber rat
  | JString string
  | JArray "js_value list"
  | JObject "(string \<times> js_value) list"

datatype js_error = SyntaxError | TypeError

text \<open>JavaScript's \<^verbatim>\<open>ToBoolean\<close>: what \<^verbatim>\<open>||\<close>, \<^verbatim>\<open>&&\<close> and \<^verbatim>\<open>!\<close> test.\<close>

fun truthy :: "js_value \<Rightarrow> bool" where
  "truthy JUndefined = False"
| "truthy JNull = False"
| "truthy (JBool b) = b"
| "truthy (JNumber n) = (n \<noteq> 0)"
| "truthy (JString s) = (s \<noteq> [])"
| "truthy (JArray xs) = True"
| "truthy (JObject ps) = True"

text \<open>\<^verbatim>\<open>a || b\<close>: the left operand when it is truthy, the right one otherwise.\<close>

definition js_or :: "js_value \<Rightarrow> js_value \<Rightarrow> js_value" where
  "js_or a b = (if truthy a then a else b)"

text \<open>
  \<^verbatim>\<open>data.key\<close> for the six names that \<^verbatim>\<open>loadFromJSON\<close> reads (\<^verbatim>\<open>amount\<close>,
  \<^verbatim>\<open>xlmAddresses\<close>, \<^verbatim>\<open>usdcAddresses\<close>, \<^verbatim>\<open>denomination\<close>, \<^verbatim>\<open>businessName\<close>,
  \<^verbatim>\<open>description\<close>). Reading a property of \<^verbatim>\<open>null\<close> or \<^verbatim>\<open>undefined\<close> throws a TypeError;
  a boolean, number, string or array has none of these names, neither has
  \<^verbatim>\<open>Object.prototype\<close>, so the read gives \<^verbatim>\<open>undefined\<close> unless the object has the property itself.
\<close>

definition get_prop :: "js_value \<Rightarrow> string \<Rightarrow> js_error + js_value" where
  "get_prop data key =
     (case data of
        JUndefined \<Rightarrow> Inl TypeError
      | JNull \<Rightarrow> Inl TypeError
      | JObject ps \<Rightarrow> Inr (case map_of ps key of None \<Rightarrow> JUndefined | Some v \<Rightarrow> v)
      | _ \<Rightarrow> Inr JUndefined)"

section \<open>The component of stellar-payment-platform-0.tsx\<close>

subsection \<open>State\<close>

record payment_data =
  amount :: js_value
  xlmAddresses :: js_value
  usdcAddresses :: js_value
  denomination :: js_value
  businessName :: js_value
  description :: js_value

record platform_state =
  paymentData :: payment_data
  showXLMModal :: bool
  showUSDCModal :: bool
  copiedAddress :: string
  jsonInput :: string

text \<open>The literal \<^verbatim>\<open>['', '', '']\<close>, used by the initial state and as the default of both address lists.\<close>

definition three_blank :: js_value where
  "three_blank = JArray [JString [], JString [], JString []]"

text \<open>The arguments of the five \<^verbatim>\<open>useState\<close> calls.\<close>

definition initial_state :: platform_state where
  "initial_state =
     \<lparr> paymentData =
         \<lparr> amount = JString [], xlmAddresses = three_blank, usdcAddresses = three_blank,
           denomination = JString [], businessName = JString [], description = JString [] \<rparr>,
       showXLMModal = False, showUSDCModal = False, copiedAddress = [], jsonInput = [] \<rparr>"

subsection \<open>Effects\<close>

text \<open>
  What a handler does besides setting state. A message is a template literal: its
  literal parts and the values interpolated between them, in order. \<open>SetTimeout d\<close> is
  \<^verbatim>\<open>setTimeout(() => setCopiedAddress(''), d)\<close>, the only timer of the program.
\<close>

datatype piece = Lit string | Val js_value

datatype effect =
    ConsoleLog "piece list"
  | Alert "piece list"
  | ClipboardWriteText js_value
  | SetTimeout nat

subsection \<open>loadFromJSON\<close>

text \<open>
  The object literal passed to \<^verbatim>\<open>setPaymentData\<close>. Its six property reads happen in source
  order, before the setter is called; the first one that throws ends the evaluation.
\<close>

definition read_payment :: "js_value \<Rightarrow> js_error + payment_data" where
  "read_payment data =
     (case get_prop data ''amount'' of Inl e \<Rightarrow> Inl e | Inr a \<Rightarrow>
     (case get_prop data ''xlmAddresses'' of Inl e \<Rightarrow> Inl e | Inr x \<Rightarrow>
     (case get_prop data ''usdcAddresses'' of Inl e \<Rightarrow> Inl e | Inr u \<Rightarrow>
     (case get_prop data ''denomination'' of Inl e \<Rightarrow> Inl e | Inr d \<Rightarrow>
     (case get_prop data ''businessName'' of Inl e \<Rightarrow> Inl e | Inr b \<Rightarrow>
     (case get_prop data ''description'' of Inl e \<Rightarrow> Inl e | Inr t \<Rightarrow>
        Inr \<lparr> amount = js_or a (JString []),
              xlmAddresses = js_or x three_blank,
              usdcAddresses = js_or u three_blank,
              denomination = js_or d (JString []),
              businessName = js_or b (JString []),
              description = js_or t (JString []) \<rparr>))))))"

text \<open>
  \<^verbatim>\<open>JSON.parse\<close> is a built-in of the platform; \<open>parsed\<close> is its outcome on the current
  \<^verbatim>\<open>jsonInput\<close>: \<open>Inl SyntaxError\<close> when it throws, \<open>Inr data\<close> when it returns. Whatever is
  thrown inside the \<^verbatim>\<open>try\<close> block reaches the \<^verbatim>\<open>catch\<close>, which alerts and sets nothing.
\<close>

definition loadFromJSON :: "js_error + js_value \<Rightarrow> platform_state \<Rightarrow> effect list \<times> platform_state" where
  "loadFromJSON parsed s =
     (case (case parsed of Inl e \<Rightarrow> Inl e | Inr data \<Rightarrow> read_payment data) of
        Inl error \<Rightarrow> ([Alert [Lit ''Invalid JSON format'']], s)
      | Inr pd \<Rightarrow> ([], s\<lparr>paymentData := pd\<rparr>))"

subsection \<open>copyToClipboard\<close>

text \<open>
  How \<^verbatim>\<open>navigator.clipboard.writeText\<close> behaves at one call: \<open>Unavailable\<close> when
  \<^verbatim>\<open>navigator.clipboard\<close> is undefined (the call throws a TypeError at once), otherwise it
  returns a promise that later fulfils or rejects. The source neither awaits the promise
  nor attaches a handler to it.
\<close>

datatype clipboard = Unavailable | Fulfils | Rejects

definition copyToClipboard ::
  "clipboard \<Rightarrow> js_value \<Rightarrow> string \<Rightarrow> platform_state \<Rightarrow> js_error + effect list \<times> platform_state" where
  "copyToClipboard clip text type s =
     (case clip of
        Unavailable \<Rightarrow> Inl TypeError
      | _ \<Rightarrow> Inr ([ClipboardWriteText text, SetTimeout 2000], s\<lparr>copiedAddress := type\<rparr>))"

text \<open>The timer's callback, \<^verbatim>\<open>() => setCopiedAddress('')\<close>.\<close>

definition copied_timeout :: "platform_state \<Rightarrow> platform_state" where
  "copied_timeout s = s\<lparr>copiedAddress := []\<rparr>"

subsection \<open>connectToStellarWallet and connectToUSDCWallet\<close>

definition connectToStellarWallet ::
  "js_value \<Rightarrow> nat \<Rightarrow> platform_state \<Rightarrow> effect list \<times> platform_state" where
  "connectToStellarWallet address index s =
     ([ConsoleLog [Lit ''Connecting to Stellar Wallet for address: '', Val address],
       Alert [Lit ''Connecting to Stellar Wallet for payment of '', Val (amount (paymentData s)),
              Lit ('' XLM'' @ [CHR 0x0A] @ ''Address: ''), Val address]],
      s)"

definition connectToUSDCWallet ::
  "js_value \<Rightarrow> nat \<Rightarrow> platform_state \<Rightarrow> effect list \<times> platform_state" where
  "connectToUSDCWallet address index s =
     ([ConsoleLog [Lit ''Connecting to USDC Wallet for address: '', Val address],
       Alert [Lit ''Connecting to USDC Wallet for payment of '', Val (amount (paymentData s)),
              Lit ('' USDC'' @ [CHR 0x0A] @ ''Address: ''), Val address]],
      s)"

subsection \<open>The inline handlers\<close>

text \<open>
  The two payment buttons carry \<^verbatim>\<open>disabled={!paymentData.amount}\<close>: a click reaches
  \<^verbatim>\<open>setShowXLMModal(true)\<close> (or \<^verbatim>\<open>setShowUSDCModal(true)\<close>) only when the amount is truthy.
\<close>

definition payWithXLM :: "platform_state \<Rightarrow> effect list \<times> platform_state" where
  "payWithXLM s = ([], if truthy (amount (paymentData s)) then s\<lparr>showXLMModal := True\<rparr> else s)"

definition payWithUSDC :: "platform_state \<Rightarrow> effect list \<times> platform_state" where
  "payWithUSDC s = ([], if truthy (amount (paymentData s)) then s\<lparr>showUSDCModal := True\<rparr> else s)"

text \<open>The \<^verbatim>\<open>onClose\<close> of each modal and the \<^verbatim>\<open>onChange\<close> of the text area.\<close>

definition closeXLM :: "platform_state \<Rightarrow> effect list \<times> platform_state" where
  "closeXLM s = ([], s\<lparr>showXLMModal := False\<rparr>)"

definition closeUSDC :: "platform_state \<Rightarrow> effect list \<times> platform_state" where
  "closeUSDC s = ([], s\<lparr>showUSDCModal := False\<rparr>)"

definition changeJsonInput :: "string \<Rightarrow> platform_state \<Rightarrow> effect list \<times> platform_state" where
  "changeJsonInput text s = ([], s\<lparr>jsonInput := text\<rparr>)"

subsection \<open>The event loop\<close>

text \<open>
  The component runs on one thread: a handler runs to completion, then the next event is
  taken. \<open>clock\<close> is the time in milliseconds, \<open>timers\<close> the due times of the pending
  \<^verbatim>\<open>setTimeout\<close> callbacks (nothing in the source calls \<^verbatim>\<open>clearTimeout\<close>), \<open>ui\<close> the
  component's state.
\<close>

record runtime =
  clock :: nat
  timers :: "nat list"
  ui :: platform_state

definition boot :: runtime where
  "boot = \<lparr> clock = 0, timers = [], ui = initial_state \<rparr>"

fun schedule :: "nat \<Rightarrow> effect list \<Rightarrow> nat list" where
  "schedule now [] = []"
| "schedule now (SetTimeout d # es) = (now + d) # schedule now es"
| "schedule now (e # es) = schedule now es"

text \<open>Run one handler on the current state and register the timers it has set.\<close>

definition dispatch :: "(platform_state \<Rightarrow> effect list \<times> platform_state) \<Rightarrow> runtime \<Rightarrow> runtime" where
  "dispatch handler rt =
     (case handler (ui rt) of
        (es, s') \<Rightarrow> rt\<lparr>timers := timers rt @ schedule (clock rt) es, ui := s'\<rparr>)"

text \<open>An exception that leaves a handler uncaught ends the handler; the state keeps its value.\<close>

definition uncaught ::
  "(platform_state \<Rightarrow> js_error + effect list \<times> platform_state) \<Rightarrow> platform_state \<Rightarrow> effect list \<times> platform_state" where
  "uncaught handler s = (case handler s of Inl e \<Rightarrow> ([], s) | Inr r \<Rightarrow> r)"

text \<open>
  Let \<open>d\<close> milliseconds pass with no user event: every timer that is due by then fires.
  All callbacks are \<open>copied_timeout\<close>, which is idempotent, so one run of it stands for all.
\<close>

definition elapse :: "nat \<Rightarrow> runtime \<Rightarrow> runtime" where
  "elapse d rt =
     (let t = clock rt + d in
      rt\<lparr> clock := t,
          timers := filter (\<lambda>due. t < due) (timers rt),
          ui := (if filter (\<lambda>due. due \<le> t) (timers rt) = [] then ui rt else copied_timeout (ui rt)) \<rparr>)"

datatype event =
    ChangeJson string
  | Load "js_error + js_value"
  | PayXLM
  | PayUSDC
  | CloseXLM
  | CloseUSDC
  | Copy clipboard js_value string
  | ConnectStellar js_value nat
  | ConnectUSDC js_value nat
  | Elapse nat

fun fire :: "runtime \<Rightarrow> event \<Rightarrow> runtime" where
  "fire rt (ChangeJson text) = dispatch (changeJsonInput text) rt"
| "fire rt (Load parsed) = dispatch (loadFromJSON parsed) rt"
| "fire rt PayXLM = dispatch payWithXLM rt"
| "fire rt PayUSDC = dispatch payWithUSDC rt"
| "fire rt CloseXLM = dispatch closeXLM rt"
| "fire rt CloseUSDC = dispatch closeUSDC rt"
| "fire rt (Copy clip text type) = dispatch (uncaught (copyToClipboard clip text type)) rt"
| "fire rt (ConnectStellar address index) = dispatch (connectToStellarWallet address index) rt"
| "fire rt (ConnectUSDC address index) = dispatch (connectToUSDCWallet address index) rt"
| "fire rt (Elapse d) = elapse d rt"

definition run :: "event list \<Rightarrow> runtime \<Rightarrow> runtime" where
  "run events rt = foldl fire rt events"

section \<open>The component of stellar-payment-platform-1.tsx\<close>

text \<open>
  Its payment data is a constant; its state is the two modal flags and
  \<^verbatim>\<open>selectedNetwork\<close>, which starts as \<^verbatim>\<open>null\<close> and is never set.
\<close>

record platform_state_1 =
  showXLMModal_1 :: bool
  showUSDCModal_1 :: bool
  selectedNetwork_1 :: "string option"

definition initial_state_1 :: platform_state_1 where
  "initial_state_1 = \<lparr> showXLMModal_1 = False, showUSDCModal_1 = False, selectedNetwork_1 = None \<rparr>"

definition handleXLMPayment :: "platform_state_1 \<Rightarrow> effect list \<times> platform_state_1" where
  "handleXLMPayment s = ([], s\<lparr>showXLMModal_1 := True\<rparr>)"

definition handleUSDCPayment :: "platform_state_1 \<Rightarrow> effect list \<times> platform_state_1" where
  "handleUSDCPayment s = ([], s\<lparr>showUSDCModal_1 := True\<rparr>)"

text \<open>\<^verbatim>\<open>address.slice(0, 8)\<close> is the first eight characters, or all of a shorter string.\<close>

definition handleWalletConnect ::
  "string \<Rightarrow> string \<Rightarrow> platform_state_1 \<Rightarrow> effect list \<times> platform_state_1" where
  "handleWalletConnect address network s =
     ([ConsoleLog [Lit ''Connecting to '', Val (JString network), Lit '' wallet for address: '',
                   Val (JString address)],
       (if network = ''stellar''
        then Alert [Lit ''Connecting to Stellar Wallet Kit for address: '',
                    Val (JString (take 8 address)), Lit ''...'']
        else Alert [Lit ''Connecting to Web3 Wallet for address: '',
                    Val (JString (take 8 address)), Lit ''...''])],
      s)"

section \<open>Facts about the handlers\<close>

lemma load_object:
  "loadFromJSON (Inr (JObject ps)) s =
     ([], s\<lparr>paymentData :=
         \<lparr> amount = js_or (case map_of ps ''amount'' of None \<Rightarrow> JUndefined | Some v \<Rightarrow> v) (JString []),
           xlmAddresses = js_or (case map_of ps ''xlmAddresses'' of None \<Rightarrow> JUndefined | Some v \<Rightarrow> v) three_blank,
           usdcAddresses = js_or (case map_of ps ''usdcAddresses'' of None \<Rightarrow> JUndefined | Some v \<Rightarrow> v) three_blank,
           denomination = js_or (case map_of ps ''denomination'' of None \<Rightarrow> JUndefined | Some v \<Rightarrow> v) (JString []),
           businessName = js_or (case map_of ps ''businessName'' of None \<Rightarrow> JUndefined | Some v \<Rightarrow> v) (JString []),
           description = js_or (case map_of ps ''description'' of None \<Rightarrow> JUndefined | Some v \<Rightarrow> v) (JString []) \<rparr>\<rparr>)"
  by (simp add: loadFromJSON_def read_payment_def get_prop_def)

lemma dispatch_copy:
  "dispatch (uncaught (copyToClipboard Fulfils text type)) rt =
     rt\<lparr>timers := timers rt @ [clock rt + 2000], ui := (ui rt)\<lparr>copiedAddress := type\<rparr>\<rparr>"
  by (simp add: dispatch_def uncaught_def copyToClipboard_def)

section \<open>Loading a payment request\<close>




text \<open>
  C5, as the code has it. For every input that is not valid JSON (\<^verbatim>\<open>JSON.parse\<close> throws),
  and for the input \<^verbatim>\<open>null\<close>, the load fails with the alert "Invalid JSON format", sets no
  payment data and leaves the whole session state as it was.
\<close>

theorem load_malformed:
  assumes "parsed = Inl SyntaxError \<or> parsed = Inr JNull"
  shows "loadFromJSON parsed s = ([Alert [Lit ''Invalid JSON format'']], s)"
  using assms by (auto simp add: loadFromJSON_def read_payment_def get_prop_def)

theorem load_malformed_witness:
  "loadFromJSON (Inl SyntaxError) initial_state = ([Alert [Lit ''Invalid JSON format'']], initial_state)
   \<and> loadFromJSON (Inr JNull) initial_state = ([Alert [Lit ''Invalid JSON format'']], initial_state)"
  using load_malformed [of "Inl SyntaxError" initial_state] load_malformed [of "Inr JNull" initial_state]
  by simp

text \<open>
  The text \<^verbatim>\<open>42\<close> is valid JSON but no record. Loaded after the record
  \<^verbatim>\<open>{"amount": "100", "denomination": "USD"}\<close>, it raises no alert and puts the payment data back
  to the defaults: the earlier request is gone.
\<close>

theorem load_non_record_counterexample:
  "fst (loadFromJSON (Inr (JNumber 42))
          (snd (loadFromJSON (Inr (JObject [(''amount'', JString ''100''), (''denomination'', JString ''USD'')]))
                  initial_state))) = []
   \<and> snd (loadFromJSON (Inr (JNumber 42))
          (snd (loadFromJSON (Inr (JObject [(''amount'', JString ''100''), (''denomination'', JString ''USD'')]))
                  initial_state))) = initial_state
   \<and> snd (loadFromJSON (Inr (JObject [(''amount'', JString ''100''), (''denomination'', JString ''USD'')]))
                  initial_state) \<noteq> initial_state"
  by (simp add: loadFromJSON_def read_payment_def get_prop_def js_or_def three_blank_def initial_state_def)

text \<open>
  C6, as the code has it. For every valid input the load succeeds: it raises no alert, and
  every field of the new payment data is the input's field, or the field's default when
  the input has none. The business name and the description default to the empty string;
  an absent address list defaults to three empty strings, the literal \<^verbatim>\<open>['', '', '']\<close>.
  Valid means: the amount is a number \<open>> 0\<close> or a non-empty string (every string that
  denotes a positive number is one), the denomination is a non-empty string, the business
  name and the description are strings or absent, the address lists are arrays or absent.
\<close>

theorem load_valid_input:
  assumes "map_of ps ''amount'' = Some v"
    and "(\<exists>a. v = JNumber a \<and> 0 < a) \<or> (\<exists>str. v = JString str \<and> str \<noteq> [])"
    and "map_of ps ''denomination'' = Some (JString d)" and "d \<noteq> []"
    and "map_of ps ''businessName'' = None \<or> (\<exists>b. map_of ps ''businessName'' = Some (JString b))"
    and "map_of ps ''description'' = None \<or> (\<exists>t. map_of ps ''description'' = Some (JString t))"
    and "map_of ps ''xlmAddresses'' = None \<or> (\<exists>xs. map_of ps ''xlmAddresses'' = Some (JArray xs))"
    and "map_of ps ''usdcAddresses'' = None \<or> (\<exists>us. map_of ps ''usdcAddresses'' = Some (JArray us))"
  shows "loadFromJSON (Inr (JObject ps)) s =
     ([], s\<lparr>paymentData :=
         \<lparr> amount = v,
           xlmAddresses = (case map_of ps ''xlmAddresses'' of
                             None \<Rightarrow> JArray [JString [], JString [], JString []] | Some x \<Rightarrow> x),
           usdcAddresses = (case map_of ps ''usdcAddresses'' of
                             None \<Rightarrow> JArray [JString [], JString [], JString []] | Some x \<Rightarrow> x),
           denomination = JString d,
           businessName = (case map_of ps ''businessName'' of None \<Rightarrow> JString [] | Some x \<Rightarrow> x),
           description = (case map_of ps ''description'' of None \<Rightarrow> JString [] | Some x \<Rightarrow> x) \<rparr>\<rparr>)"
proof -
  from assms(2) have tv: "truthy v"
    by auto
  have a: "js_or (case map_of ps ''amount'' of None \<Rightarrow> JUndefined | Some x \<Rightarrow> x) (JString []) = v"
    using assms(1) tv by (simp add: js_or_def)
  have dn: "js_or (case map_of ps ''denomination'' of None \<Rightarrow> JUndefined | Some x \<Rightarrow> x) (JString [])
      = JString d"
    using assms(3,4) by (simp add: js_or_def)
  have bn: "js_or (case map_of ps ''businessName'' of None \<Rightarrow> JUndefined | Some x \<Rightarrow> x) (JString [])
      = (case map_of ps ''businessName'' of None \<Rightarrow> JString [] | Some x \<Rightarrow> x)"
    using assms(5) by (auto simp add: js_or_def)
  have ds: "js_or (case map_of ps ''description'' of None \<Rightarrow> JUndefined | Some x \<Rightarrow> x) (JString [])
      = (case map_of ps ''description'' of None \<Rightarrow> JString [] | Some x \<Rightarrow> x)"
    using assms(6) by (auto simp add: js_or_def)
  have xl: "js_or (case map_of ps ''xlmAddresses'' of None \<Rightarrow> JUndefined | Some x \<Rightarrow> x) three_blank
      = (case map_of ps ''xlmAddresses'' of
           None \<Rightarrow> JArray [JString [], JString [], JString []] | Some x \<Rightarrow> x)"
    using assms(7) by (auto simp add: js_or_def three_blank_def)
  have us: "js_or (case map_of ps ''usdcAddresses'' of None \<Rightarrow> JUndefined | Some x \<Rightarrow> x) three_blank
      = (case map_of ps ''usdcAddresses'' of
           None \<Rightarrow> JArray [JString [], JString [], JString []] | Some x \<Rightarrow> x)"
    using assms(8) by (auto simp add: js_or_def three_blank_def)
  show ?thesis
    unfolding load_object a dn bn ds xl us ..
qed

text \<open>
  The amount as the string \<^verbatim>\<open>"100"\<close>, with a Stellar list, a description and neither a USDC
  list nor a business name; and the specification's own example,
  \<^verbatim>\<open>{amount: 150, denomination: "USD", xlmAddresses: ["GABC"], usdcAddresses: []}\<close>.
\<close>

theorem load_valid_input_witness:
  "loadFromJSON (Inr (JObject [(''amount'', JString ''100''), (''denomination'', JString ''USD''),
        (''xlmAddresses'', JArray [JString ''GABC'']), (''description'', JString ''Product purchase'')]))
      initial_state =
     ([], initial_state\<lparr>paymentData :=
         \<lparr> amount = JString ''100'', xlmAddresses = JArray [JString ''GABC''],
           usdcAddresses = JArray [JString [], JString [], JString []],
           denomination = JString ''USD'', businessName = JString [],
           description = JString ''Product purchase'' \<rparr>\<rparr>)
   \<and> loadFromJSON (Inr (JObject [(''amount'', JNumber 150), (''denomination'', JString ''USD''),
        (''xlmAddresses'', JArray [JString ''GABC'']), (''usdcAddresses'', JArray [])])) initial_state =
     ([], initial_state\<lparr>paymentData :=
         \<lparr> amount = JNumber 150, xlmAddresses = JArray [JString ''GABC''], usdcAddresses = JArray [],
           denomination = JString ''USD'', businessName = JString [], description = JString [] \<rparr>\<rparr>)"
  using load_valid_input [of "[(''amount'', JString ''100''), (''denomination'', JString ''USD''),
        (''xlmAddresses'', JArray [JString ''GABC'']), (''description'', JString ''Product purchase'')]"
        "JString ''100''" "''USD''" initial_state]
    load_valid_input [of "[(''amount'', JNumber 150), (''denomination'', JString ''USD''),
        (''xlmAddresses'', JArray [JString ''GABC'']), (''usdcAddresses'', JArray [])]"
        "JNumber 150" "''USD''" initial_state]
  by simp

text \<open>
  The valid record \<^verbatim>\<open>{"amount": 150, "denomination": "USD"}\<close> has no address list. The loaded
  payment data holds three blank slots for each network; it is not the input after the
  specification's defaulting, in which an absent list is the empty sequence.
\<close>

theorem load_valid_default_counterexample:
  "paymentData (snd (loadFromJSON
      (Inr (JObject [(''amount'', JNumber 150), (''denomination'', JString ''USD'')])) initial_state))
     = \<lparr> amount = JNumber 150, xlmAddresses = JArray [JString [], JString [], JString []],
         usdcAddresses = JArray [JString [], JString [], JString []],
         denomination = JString ''USD'', businessName = JString [], description = JString [] \<rparr>
   \<and> paymentData (snd (loadFromJSON
      (Inr (JObject [(''amount'', JNumber 150), (''denomination'', JString ''USD'')])) initial_state))
     \<noteq> \<lparr> amount = JNumber 150, xlmAddresses = JArray [], usdcAddresses = JArray [],
         denomination = JString ''USD'', businessName = JString [], description = JString [] \<rparr>"
  by (simp add: loadFromJSON_def read_payment_def get_prop_def js_or_def three_blank_def)

text \<open>
  C7, as the code has it. When a record has no \<^verbatim>\<open>xlmAddresses\<close> (or \<^verbatim>\<open>usdcAddresses\<close>)
  field, the loaded address sequence of that network is three empty strings, the literal
  \<^verbatim>\<open>['', '', '']\<close>. When the field is a list, the list is stored as it is: empty strings
  stay, and every entry keeps its position.
\<close>

theorem load_address_lists:
  "(map_of ps ''xlmAddresses'' = None \<longrightarrow>
      xlmAddresses (paymentData (snd (loadFromJSON (Inr (JObject ps)) s)))
        = JArray [JString [], JString [], JString []])
   \<and> (map_of ps ''xlmAddresses'' = Some (JArray xs) \<longrightarrow>
      xlmAddresses (paymentData (snd (loadFromJSON (Inr (JObject ps)) s))) = JArray xs)
   \<and> (map_of ps ''usdcAddresses'' = None \<longrightarrow>
      usdcAddresses (paymentData (snd (loadFromJSON (Inr (JObject ps)) s)))
        = JArray [JString [], JString [], JString []])
   \<and> (map_of ps ''usdcAddresses'' = Some (JArray us) \<longrightarrow>
      usdcAddresses (paymentData (snd (loadFromJSON (Inr (JObject ps)) s))) = JArray us)"
  by (simp add: loadFromJSON_def read_payment_def get_prop_def js_or_def three_blank_def)

text \<open>
  The record \<^verbatim>\<open>{"amount": "100", "xlmAddresses": ["GABC", "", "GHIJ"]}\<close>: the Stellar list is
  kept with its blank second entry, the absent USDC list becomes three blanks.
\<close>

theorem load_address_lists_witness:
  "xlmAddresses (paymentData (snd (loadFromJSON
      (Inr (JObject [(''amount'', JString ''100''),
                     (''xlmAddresses'', JArray [JString ''GABC'', JString [], JString ''GHIJ''])]))
      initial_state))) = JArray [JString ''GABC'', JString [], JString ''GHIJ'']
   \<and> usdcAddresses (paymentData (snd (loadFromJSON
      (Inr (JObject [(''amount'', JString ''100''),
                     (''xlmAddresses'', JArray [JString ''GABC'', JString [], JString ''GHIJ''])]))
      initial_state))) = JArray [JString [], JString [], JString []]"
  using load_address_lists
    [of "[(''amount'', JString ''100''),
          (''xlmAddresses'', JArray [JString ''GABC'', JString [], JString ''GHIJ''])]"
        initial_state "[JString ''GABC'', JString [], JString ''GHIJ'']"]
  by simp

text \<open>
  The record \<^verbatim>\<open>{"amount": "100", "denomination": "USD"}\<close> has no Stellar list; the loaded
  sequence is three blank slots, not the empty sequence.
\<close>

theorem load_absent_list_counterexample:
  "xlmAddresses (paymentData (snd (loadFromJSON
      (Inr (JObject [(''amount'', JString ''100''), (''denomination'', JString ''USD'')])) initial_state)))
     = JArray [JString [], JString [], JString []]
   \<and> xlmAddresses (paymentData (snd (loadFromJSON
      (Inr (JObject [(''amount'', JString ''100''), (''denomination'', JString ''USD'')])) initial_state)))
     \<noteq> JArray []"
  by (simp add: loadFromJSON_def read_payment_def get_prop_def js_or_def three_blank_def)

text \<open>
  C8, as the code has it. A load sets the payment data and nothing else: the clipboard
  feedback, both modal flags and the text input are the same after the load as before, and
  in the event loop the pending feedback timers and the clock are untouched. Feedback that
  was active before a load stays active until its own timer fires. The component keeps no
  connection attempt.
\<close>

theorem load_keeps_feedback:
  "copiedAddress (snd (loadFromJSON parsed s)) = copiedAddress s
   \<and> showXLMModal (snd (loadFromJSON parsed s)) = showXLMModal s
   \<and> showUSDCModal (snd (loadFromJSON parsed s)) = showUSDCModal s
   \<and> jsonInput (snd (loadFromJSON parsed s)) = jsonInput s
   \<and> timers (fire rt (Load parsed)) = timers rt
   \<and> clock (fire rt (Load parsed)) = clock rt
   \<and> copiedAddress (ui (fire rt (Load parsed))) = copiedAddress (ui rt)"
  by (simp add: loadFromJSON_def dispatch_def split: sum.splits prod.splits)

text \<open>
  Load a request, open the Stellar modal, copy its first address, close the modal and,
  half a second later, load another request: the load succeeds and the feedback of the
  first request's copy is still active.
\<close>

theorem load_keeps_feedback_counterexample:
  "copiedAddress (ui (run
      [Load (Inr (JObject [(''amount'', JString ''100''), (''xlmAddresses'', JArray [JString ''GABC''])])),
       PayXLM,
       Copy Fulfils (JString ''GABC'') ''XLM-0'',
       CloseXLM,
       Elapse 500,
       Load (Inr (JObject [(''amount'', JString ''7''), (''xlmAddresses'', JArray [JString ''GDEF''])]))]
      boot)) = ''XLM-0''
   \<and> xlmAddresses (paymentData (ui (run
      [Load (Inr (JObject [(''amount'', JString ''100''), (''xlmAddresses'', JArray [JString ''GABC''])])),
       PayXLM,
       Copy Fulfils (JString ''GABC'') ''XLM-0'',
       CloseXLM,
       Elapse 500,
       Load (Inr (JObject [(''amount'', JString ''7''), (''xlmAddresses'', JArray [JString ''GDEF''])]))]
      boot))) = JArray [JString ''GDEF'']"
  by (simp add: run_def boot_def initial_state_def dispatch_def elapse_def uncaught_def
      loadFromJSON_def read_payment_def get_prop_def js_or_def three_blank_def
      payWithXLM_def closeXLM_def copyToClipboard_def copied_timeout_def)

section \<open>The two modals\<close>

text \<open>
  C2, as the code has it. The two modal flags are independent booleans: opening one
  network's modal sets that network's flag and leaves the other flag as it is, in both
  components. After the Stellar modal and then the USDC modal have been opened, both modals
  are visible; which flags are set is a function of the state, so the outcome is
  deterministic. In stellar-payment-platform-0.tsx the buttons open a modal only when the
  loaded amount is truthy.
\<close>

theorem modal_flags_independent:
  "showXLMModal_1 (snd (handleUSDCPayment (snd (handleXLMPayment s1))))
   \<and> showUSDCModal_1 (snd (handleUSDCPayment (snd (handleXLMPayment s1))))
   \<and> showUSDCModal_1 (snd (handleXLMPayment s1)) = showUSDCModal_1 s1
   \<and> showXLMModal_1 (snd (handleUSDCPayment s1)) = showXLMModal_1 s1
   \<and> (truthy (amount (paymentData s)) \<longrightarrow>
        showXLMModal (snd (payWithUSDC (snd (payWithXLM s))))
        \<and> showUSDCModal (snd (payWithUSDC (snd (payWithXLM s)))))
   \<and> showUSDCModal (snd (payWithXLM s)) = showUSDCModal s
   \<and> showXLMModal (snd (payWithUSDC s)) = showXLMModal s"
  by (simp add: handleXLMPayment_def handleUSDCPayment_def payWithXLM_def payWithUSDC_def)

theorem modal_flags_independent_witness:
  "truthy (amount (paymentData (initial_state\<lparr>paymentData := (paymentData initial_state)\<lparr>amount := JNumber 150\<rparr>\<rparr>)))
   \<and> showXLMModal (snd (payWithUSDC (snd (payWithXLM
        (initial_state\<lparr>paymentData := (paymentData initial_state)\<lparr>amount := JNumber 150\<rparr>\<rparr>)))))
   \<and> showUSDCModal (snd (payWithUSDC (snd (payWithXLM
        (initial_state\<lparr>paymentData := (paymentData initial_state)\<lparr>amount := JNumber 150\<rparr>\<rparr>)))))"
  using modal_flags_independent
    [of _ "initial_state\<lparr>paymentData := (paymentData initial_state)\<lparr>amount := JNumber 150\<rparr>\<rparr>"]
  by simp

text \<open>
  Both components reach a state with both modals visible: the second one from its initial
  state by the two payment handlers, the first one by loading a request and clicking
  both payment buttons.
\<close>

theorem both_modals_counterexample:
  "showXLMModal_1 (snd (handleUSDCPayment (snd (handleXLMPayment initial_state_1))))
   \<and> showUSDCModal_1 (snd (handleUSDCPayment (snd (handleXLMPayment initial_state_1))))
   \<and> showXLMModal (ui (run [Load (Inr (JObject [(''amount'', JString ''100'')])), PayXLM, PayUSDC] boot))
   \<and> showUSDCModal (ui (run [Load (Inr (JObject [(''amount'', JString ''100'')])), PayXLM, PayUSDC] boot))"
  by (simp add: handleXLMPayment_def handleUSDCPayment_def run_def boot_def initial_state_def
      dispatch_def loadFromJSON_def read_payment_def get_prop_def js_or_def three_blank_def
      payWithXLM_def payWithUSDC_def)

section \<open>Connecting a wallet\<close>


text \<open>
  C10. Invoking connect leaves the whole session state unchanged, for every address and
  index and in every state: the payment data, both modal flags, the clipboard feedback
  and the text input are the same before and after, in both components; in the event
  loop no timer is added or removed either, so nothing is delivered later.
\<close>

theorem connect_leaves_state:
  "snd (connectToStellarWallet address index s) = s
   \<and> snd (connectToUSDCWallet address index s) = s
   \<and> snd (handleWalletConnect address1 network s1) = s1
   \<and> fire rt (ConnectStellar address index) = rt
   \<and> fire rt (ConnectUSDC address index) = rt"
  by (simp add: connectToStellarWallet_def connectToUSDCWallet_def handleWalletConnect_def
      dispatch_def)

section \<open>Clipboard feedback\<close>

text \<open>
  C4, as the code has it. A copy at time \<open>T\<close> makes the feedback entry active and adds a
  reset due at \<open>T + 2000\<close> ms to the pending timers; no timer is ever cancelled. With no
  other timer pending the feedback is active at every time before \<open>T + 2000\<close> ms, and it is
  inactive once 2000 ms have passed. A second copy before the expiry neither cancels nor
  restarts the first timer: the feedback becomes inactive at \<open>T + 2000\<close> ms all the same.
\<close>

theorem copy_feedback_expiry:
  "copiedAddress (ui (fire rt (Copy Fulfils text type))) = type
   \<and> timers (fire rt (Copy Fulfils text type)) = timers rt @ [clock rt + 2000]
   \<and> (timers rt = [] \<and> d < 2000 \<longrightarrow>
        copiedAddress (ui (run [Copy Fulfils text type, Elapse d] rt)) = type)
   \<and> (2000 \<le> d \<longrightarrow>
        copiedAddress (ui (run [Copy Fulfils text type, Elapse d] rt)) = [])
   \<and> (d1 < 2000 \<and> 2000 \<le> d1 + d2 \<longrightarrow>
        copiedAddress (ui (run [Copy Fulfils text type, Elapse d1, Copy Fulfils text' type', Elapse d2] rt)) = [])"
  by (simp add: run_def dispatch_copy elapse_def copied_timeout_def Let_def)

theorem copy_feedback_expiry_witness:
  "timers boot = [] \<and> (500::nat) < 2000 \<and> (1500::nat) < 2000 \<and> (2000::nat) \<le> 1500 + 500
   \<and> copiedAddress (ui (run [Copy Fulfils (JString ''GABC'') ''XLM-0'', Elapse 500] boot)) = ''XLM-0''
   \<and> copiedAddress (ui (run [Copy Fulfils (JString ''GABC'') ''XLM-0'', Elapse 2000] boot)) = []
   \<and> copiedAddress (ui (run [Copy Fulfils (JString ''GABC'') ''XLM-0'', Elapse 1500,
                              Copy Fulfils (JString ''GABC'') ''XLM-0'', Elapse 500] boot)) = []"
  using copy_feedback_expiry [of boot "JString ''GABC''" "''XLM-0''" 500]
    copy_feedback_expiry [of boot "JString ''GABC''" "''XLM-0''" 2000 1500 500 "JString ''GABC''" "''XLM-0''"]
  by (simp add: boot_def)

text \<open>
  Copy at time 0, copy again at 1500 ms: at 2000 ms the feedback is inactive, 1500 ms
  before the second copy's own expiry.
\<close>

theorem copy_restart_counterexample:
  "copiedAddress (ui (run
      [Load (Inr (JObject [(''amount'', JString ''100''), (''xlmAddresses'', JArray [JString ''GABC''])])),
       PayXLM,
       Copy Fulfils (JString ''GABC'') ''XLM-0'', Elapse 1500,
       Copy Fulfils (JString ''GABC'') ''XLM-0'', Elapse 500] boot)) = []
   \<and> clock (run
      [Load (Inr (JObject [(''amount'', JString ''100''), (''xlmAddresses'', JArray [JString ''GABC''])])),
       PayXLM,
       Copy Fulfils (JString ''GABC'') ''XLM-0'', Elapse 1500,
       Copy Fulfils (JString ''GABC'') ''XLM-0'', Elapse 500] boot) = 2000"
  by (simp add: run_def boot_def initial_state_def dispatch_def elapse_def uncaught_def
      loadFromJSON_def read_payment_def get_prop_def js_or_def three_blank_def
      payWithXLM_def copyToClipboard_def copied_timeout_def)

text \<open>
  C9, as the code has it. The copy handler does not look at the outcome of the clipboard
  write: when the write's promise rejects, the feedback entry is set and its timer
  started exactly as when it fulfils, and nothing is reported to the caller. Only when the
  clipboard is unavailable, so that the call itself throws, is no feedback entry created;
  the TypeError then leaves the handler.
\<close>

theorem copy_ignores_rejection:
  "copyToClipboard Rejects text type s =
     Inr ([ClipboardWriteText text, SetTimeout 2000], s\<lparr>copiedAddress := type\<rparr>)
   \<and> copyToClipboard Fulfils text type s = copyToClipboard Rejects text type s
   \<and> copyToClipboard Unavailable text type s = Inl TypeError
   \<and> ui (fire rt (Copy Unavailable text type)) = ui rt"
  by (simp add: copyToClipboard_def dispatch_def uncaught_def)

text \<open>A rejected write of the address GABC: the handler returns normally and the feedback is active.\<close>

theorem copy_rejected_counterexample:
  "copyToClipboard Rejects (JString ''GABC'') ''XLM-0'' initial_state =
     Inr ([ClipboardWriteText (JString ''GABC''), SetTimeout 2000],
          initial_state\<lparr>copiedAddress := ''XLM-0''\<rparr>)
   \<and> copiedAddress (ui (fire boot (Copy Rejects (JString ''GABC'') ''XLM-0''))) = ''XLM-0''"
  by (simp add: copyToClipboard_def dispatch_def uncaught_def boot_def)

end
